theory Spec2Isabelle
  imports Complex_Main "HOL-Library.Code_Target_Numeral"
begin

section \<open>JSON values\<close>

text \<open>
  The rule engine of \<^verbatim>\<open>ruleExecutor.js\<close> works on values obtained from parsed JSON:
  the transactions fetched from the accounting service and the rule sent by the client.
  A JSON number is kept as the decimal fraction its literal denotes, \<open>JNum m e\<close> standing
  for \<open>m * 10 ^ e\<close>; binary64 rounding and overflow are not modelled, so the model agrees
  with the engine on the numbers that a double carries exactly through printing and
  parsing (up to 15 significant digits). An object is the list of its own properties in
  order, the first binding of a key being its value. \<open>JUndefined\<close> is the value of a
  missing property. Strings are byte strings: the case mapping and the white space below
  are those of ASCII. A property that depends on the agreement of these numbers and
  strings with those of the engine carries it as a hypothesis (\<open>exact_number\<close>,
  \<open>ascii_string\<close> below).
\<close>

datatype json =
    JUndefined
  | JNull
  | JBool bool
  | JNum int int
  | JStr string
  | JArr "json list"
  | JObj "(string \<times> json) list"

type_synonym obj = "(string \<times> json) list"

text \<open>The numbers that arithmetic on strings can produce: \<open>parseFloat\<close> and \<open>ToNumber\<close>.\<close>

datatype number = NaN | NegInf | Fin rat | PosInf

fun num_less :: "number \<Rightarrow> number \<Rightarrow> bool" where
  "num_less (Fin a) (Fin b) = (a < b)"
| "num_less (Fin a) PosInf = True"
| "num_less NegInf (Fin b) = True"
| "num_less NegInf PosInf = True"
| "num_less _ _ = False"

fun num_eq :: "number \<Rightarrow> number \<Rightarrow> bool" where
  "num_eq (Fin a) (Fin b) = (a = b)"
| "num_eq PosInf PosInf = True"
| "num_eq NegInf NegInf = True"
| "num_eq _ _ = False"

definition scale10 :: "rat \<Rightarrow> int \<Rightarrow> rat" where
  "scale10 v e = (if 0 \<le> e then v * 10 ^ nat e else v / 10 ^ nat (- e))"

definition dec_value :: "int \<Rightarrow> int \<Rightarrow> rat" where
  "dec_value m e = scale10 (of_int m) e"

section \<open>Strings\<close>

definition is_digit :: "char \<Rightarrow> bool" where
  "is_digit c = (c \<in> set ''0123456789'')"

definition digit_val :: "char \<Rightarrow> nat" where
  "digit_val c = of_char c - 48"

definition is_space :: "char \<Rightarrow> bool" where
  "is_space c = (of_char c \<in> set [9, 10, 11, 12, 13, 32 :: nat])"

definition digits_val :: "string \<Rightarrow> nat" where
  "digits_val s = foldl (\<lambda>n c. 10 * n + digit_val c) 0 s"

definition digit_char :: "nat \<Rightarrow> char" where
  "digit_char d = ''0123456789'' ! d"

fun show_nat :: "nat \<Rightarrow> string" where
  "show_nat n = (if n < 10 then [digit_char n] else show_nat (n div 10) @ [digit_char (n mod 10)])"

declare show_nat.simps [simp del]

definition startsWith :: "string \<Rightarrow> string \<Rightarrow> bool" where
  "startsWith s p = (take (length p) s = p)"

fun str_includes :: "string \<Rightarrow> string \<Rightarrow> bool" where
  "str_includes [] p = (p = [])"
| "str_includes (c # cs) p = (startsWith (c # cs) p \<or> str_includes cs p)"

definition lower_char :: "char \<Rightarrow> char" where
  "lower_char c = (let n = (of_char c :: nat) in if 65 \<le> n \<and> n \<le> 90 then char_of (n + 32) else c)"

definition toLowerCase :: "string \<Rightarrow> string" where
  "toLowerCase s = map lower_char s"

fun split_on :: "char \<Rightarrow> string \<Rightarrow> string list" where
  "split_on d [] = [[]]"
| "split_on d (c # cs) =
     (if c = d then [] # split_on d cs
      else (case split_on d cs of [] \<Rightarrow> [[c]] | p # ps \<Rightarrow> (c # p) # ps))"

fun join :: "string \<Rightarrow> string list \<Rightarrow> string" where
  "join sep [] = []"
| "join sep [x] = x"
| "join sep (x # y # ys) = x @ sep @ join sep (y # ys)"

section \<open>Numbers and strings\<close>

text \<open>\<open>Number::toString\<close>: the digits of the number without trailing zeros, placed by the
  position \<open>n\<close> of the decimal point; exponent notation outside \<open>1e-6 \<le> x < 1e21\<close>.\<close>

function strip10 :: "int \<Rightarrow> int \<Rightarrow> int \<times> int" where
  "strip10 m e = (if m \<noteq> 0 \<and> m mod 10 = 0 then strip10 (m div 10) (e + 1) else (m, e))"
  by pat_completeness auto
termination
  by (relation "measure (\<lambda>(m, e). nat \<bar>m\<bar>)") auto

declare strip10.simps [simp del]

definition num_to_string :: "int \<Rightarrow> int \<Rightarrow> string" where
  "num_to_string m e =
     (if m = 0 then ''0''
      else
        let (s, e') = strip10 \<bar>m\<bar> e;
            ds = show_nat (nat s);
            k = int (length ds);
            n = k + e'
        in (if m < 0 then ''-'' else []) @
           (if k \<le> n \<and> n \<le> 21 then ds @ replicate (nat (n - k)) (CHR ''0'')
            else if 0 < n \<and> n \<le> 21 then take (nat n) ds @ ''.'' @ drop (nat n) ds
            else if - 6 < n \<and> n \<le> 0 then ''0.'' @ replicate (nat (- n)) (CHR ''0'') @ ds
            else
              let x = n - 1;
                  es = (if x < 0 then ''-'' else ''+'') @ show_nat (nat \<bar>x\<bar>)
              in if k = 1 then ds @ ''e'' @ es
                 else take 1 ds @ ''.'' @ drop 1 ds @ ''e'' @ es))"

text \<open>\<open>String(v)\<close>. An array prints its elements separated by commas, \<open>null\<close> and
  \<open>undefined\<close> elements as the empty string; a plain object prints as a fixed tag.\<close>

fun toString :: "json \<Rightarrow> string" where
  "toString JUndefined = ''undefined''"
| "toString JNull = ''null''"
| "toString (JBool b) = (if b then ''true'' else ''false'')"
| "toString (JNum m e) = num_to_string m e"
| "toString (JStr s) = s"
| "toString (JArr xs) =
     join '','' (map (\<lambda>x. if x = JUndefined \<or> x = JNull then [] else toString x) xs)"
| "toString (JObj kvs) = ''[object Object]''"

text \<open>
  Reading a number from a string. \<open>scan_decimal\<close> reads the longest prefix that is a signed
  decimal literal (or \<open>Infinity\<close>) and returns its value with the rest of the string.
  \<open>parseFloat\<close> skips leading white space and ignores the rest; \<open>string_to_number\<close>
  (the conversion \<open>ToNumber\<close> that loose equality applies to a string) trims both ends,
  maps the empty string to \<open>0\<close>, accepts the radix literals \<open>0x\<close>, \<open>0o\<close>, \<open>0b\<close> and
  wants the whole string to be the literal.
\<close>

definition scan_sign :: "string \<Rightarrow> bool \<times> string" where
  "scan_sign s =
     (case s of
        [] \<Rightarrow> (False, s)
      | c # r \<Rightarrow> if c = CHR ''-'' then (True, r) else if c = CHR ''+'' then (False, r) else (False, s))"

definition scan_exponent :: "string \<Rightarrow> int \<times> string" where
  "scan_exponent s =
     (case s of
        [] \<Rightarrow> (0, s)
      | c # r \<Rightarrow>
          if c = CHR ''e'' \<or> c = CHR ''E'' then
            (let (neg, r1) = scan_sign r;
                 ds = takeWhile is_digit r1
             in if ds = [] then (0, s)
                else (if neg then - int (digits_val ds) else int (digits_val ds),
                      dropWhile is_digit r1))
          else (0, s))"

definition scan_decimal :: "string \<Rightarrow> (number \<times> string) option" where
  "scan_decimal s =
     (let (neg, s1) = scan_sign s
      in if startsWith s1 ''Infinity'' then Some (if neg then NegInf else PosInf, drop 8 s1)
         else
           let ip = takeWhile is_digit s1;
               r1 = dropWhile is_digit s1;
               (fp, r2) = (case r1 of
                             [] \<Rightarrow> ([], r1)
                           | c # r \<Rightarrow> if c = CHR ''.''
                                      then (takeWhile is_digit r, dropWhile is_digit r)
                                      else ([], r1))
           in if ip = [] \<and> fp = [] then None
              else
                let (x, r3) = scan_exponent r2;
                    v = of_nat (digits_val ip) + of_nat (digits_val fp) / 10 ^ length fp
                in Some (Fin (scale10 (if neg then - v else v) x), r3))"

definition parseFloat_string :: "string \<Rightarrow> number" where
  "parseFloat_string s =
     (case scan_decimal (dropWhile is_space s) of None \<Rightarrow> NaN | Some (n, r) \<Rightarrow> n)"

definition trim :: "string \<Rightarrow> string" where
  "trim s = rev (dropWhile is_space (rev (dropWhile is_space s)))"

definition radix_digit :: "char \<Rightarrow> nat option" where
  "radix_digit c =
     (let n = (of_char c :: nat)
      in if 48 \<le> n \<and> n \<le> 57 then Some (n - 48)
         else if 97 \<le> n \<and> n \<le> 102 then Some (n - 87)
         else if 65 \<le> n \<and> n \<le> 70 then Some (n - 55)
         else None)"

fun radix_val :: "nat \<Rightarrow> nat \<Rightarrow> string \<Rightarrow> nat option" where
  "radix_val b acc [] = Some acc"
| "radix_val b acc (c # cs) =
     (case radix_digit c of
        None \<Rightarrow> None
      | Some d \<Rightarrow> if d < b then radix_val b (b * acc + d) cs else None)"

definition radix_literal :: "string \<Rightarrow> nat option" where
  "radix_literal s =
     (case s of
        z # c # d # ds \<Rightarrow>
          if z \<noteq> CHR ''0'' then None
          else if c = CHR ''x'' \<or> c = CHR ''X'' then radix_val 16 0 (d # ds)
          else if c = CHR ''o'' \<or> c = CHR ''O'' then radix_val 8 0 (d # ds)
          else if c = CHR ''b'' \<or> c = CHR ''B'' then radix_val 2 0 (d # ds)
          else None
      | _ \<Rightarrow> None)"

definition string_to_number :: "string \<Rightarrow> number" where
  "string_to_number s =
     (let t = trim s
      in if t = [] then Fin 0
         else (case radix_literal t of
                 Some n \<Rightarrow> Fin (of_nat n)
               | None \<Rightarrow> (case scan_decimal t of
                            Some (n, []) \<Rightarrow> n
                          | _ \<Rightarrow> NaN)))"

text \<open>\<open>parseFloat(v)\<close> converts its argument to a string first.\<close>

definition parseFloat :: "json \<Rightarrow> number" where
  "parseFloat v = parseFloat_string (toString v)"

section \<open>Equality\<close>

text \<open>
  The engine compares a value read from a transaction with a value of the rule. The two
  come from different JSON documents, so two arrays or objects are never the same
  reference: \<open>==\<close>, \<open>!=\<close> and \<open>Array.prototype.includes\<close> find them different whatever
  they contain.
\<close>

fun is_absent :: "json \<Rightarrow> bool" where
  "is_absent JUndefined = True"
| "is_absent JNull = True"
| "is_absent _ = False"

fun isArray :: "json \<Rightarrow> bool" where
  "isArray (JArr xs) = True"
| "isArray _ = False"

fun is_object :: "json \<Rightarrow> bool" where
  "is_object (JArr xs) = True"
| "is_object (JObj kvs) = True"
| "is_object _ = False"

definition toPrimitive :: "json \<Rightarrow> json" where
  "toPrimitive v = (if is_object v then JStr (toString v) else v)"

fun toNumber :: "json \<Rightarrow> number" where
  "toNumber JUndefined = NaN"
| "toNumber JNull = Fin 0"
| "toNumber (JBool b) = Fin (if b then 1 else 0)"
| "toNumber (JNum m e) = Fin (dec_value m e)"
| "toNumber (JStr s) = string_to_number s"
| "toNumber v = string_to_number (toString v)"

text \<open>
  \<open>x == y\<close> (IsLooselyEqual): \<open>null\<close> and \<open>undefined\<close> equal each other and nothing else;
  two strings are compared as strings; in every other pair of primitives a boolean or a
  string is converted to a number and the numbers are compared; an array or object facing
  a primitive is converted to its string first.
\<close>

definition looseEq :: "json \<Rightarrow> json \<Rightarrow> bool" where
  "looseEq x y =
     (if is_absent x \<or> is_absent y then is_absent x \<and> is_absent y
      else if is_object x \<and> is_object y then False
      else (case (toPrimitive x, toPrimitive y) of
              (JStr a, JStr b) \<Rightarrow> a = b
            | (px, py) \<Rightarrow> num_eq (toNumber px) (toNumber py)))"

text \<open>The comparison of \<open>Array.prototype.includes\<close> (SameValueZero).\<close>

fun sameValueZero :: "json \<Rightarrow> json \<Rightarrow> bool" where
  "sameValueZero JUndefined JUndefined = True"
| "sameValueZero JNull JNull = True"
| "sameValueZero (JBool a) (JBool b) = (a = b)"
| "sameValueZero (JNum m e) (JNum m' e') = (dec_value m e = dec_value m' e')"
| "sameValueZero (JStr a) (JStr b) = (a = b)"
| "sameValueZero _ _ = False"

definition array_includes :: "json list \<Rightarrow> json \<Rightarrow> bool" where
  "array_includes xs v = list_ex (\<lambda>x. sameValueZero x v) xs"

section \<open>Path resolution\<close>

text \<open>
  \<open>current[key]\<close> on JSON data: an own property of an object, the \<open>length\<close> of an array
  or string, an element of an array or a character of a string by index. Members
  inherited from the built-in prototypes (methods such as \<open>map\<close>, or \<open>constructor\<close>) are
  objects of the engine, not JSON data, and are outside the model: \<open>get_prop\<close> describes
  the engine only on keys that name none of them, and a property that reads such a key
  says so in a hypothesis (\<open>inherited_by_array\<close> below lists the names for arrays). An
  index segment is
  read as the natural number it writes; the engine reads it into a double, which is the
  same number below \<open>2 ^ 53\<close>.
\<close>

fun get_prop :: "json \<Rightarrow> string \<Rightarrow> json" where
  "get_prop (JObj kvs) k = (case map_of kvs k of None \<Rightarrow> JUndefined | Some v \<Rightarrow> v)"
| "get_prop (JArr xs) k = (if k = ''length'' then JNum (int (length xs)) 0 else JUndefined)"
| "get_prop (JStr s) k = (if k = ''length'' then JNum (int (length s)) 0 else JUndefined)"
| "get_prop _ k = JUndefined"

fun get_index :: "json \<Rightarrow> nat \<Rightarrow> json" where
  "get_index (JArr xs) i = (if i < length xs then xs ! i else JUndefined)"
| "get_index (JStr s) i = (if i < length s then JStr [s ! i] else JUndefined)"
| "get_index (JObj kvs) i = get_prop (JObj kvs) (show_nat i)"
| "get_index _ i = JUndefined"

definition is_index_key :: "string \<Rightarrow> bool" where
  "is_index_key key = (key \<noteq> [] \<and> list_all is_digit key)"

definition getNestedValue :: "json \<Rightarrow> string \<Rightarrow> json" where
  "getNestedValue obj path =
     foldl (\<lambda>current key.
              if current = JUndefined \<or> current = JNull then JUndefined
              else if is_index_key key then get_index current (digits_val key)
              else get_prop current key)
       obj (split_on (CHR ''.'') path)"

definition isLineField :: "string \<Rightarrow> bool" where
  "isLineField field = startsWith field ''Line.''"

section \<open>Comparison\<close>

definition compare :: "json \<Rightarrow> string \<Rightarrow> json \<Rightarrow> bool" where
  "compare fieldValue operator v =
     (if fieldValue = JUndefined \<or> fieldValue = JNull then False
      else if operator = ''eq'' then looseEq fieldValue v
      else if operator = ''ne'' then \<not> looseEq fieldValue v
      else if operator = ''gt'' then num_less (parseFloat v) (parseFloat fieldValue)
      else if operator = ''lt'' then num_less (parseFloat fieldValue) (parseFloat v)
      else if operator = ''contains''
        then str_includes (toLowerCase (toString fieldValue)) (toLowerCase (toString v))
      else if operator = ''not_contains''
        then \<not> str_includes (toLowerCase (toString fieldValue)) (toLowerCase (toString v))
      else if operator = ''in''
        then (case v of JArr xs \<Rightarrow> array_includes xs fieldValue | _ \<Rightarrow> False)
      else if operator = ''not_in''
        then (case v of JArr xs \<Rightarrow> \<not> array_includes xs fieldValue | _ \<Rightarrow> False)
      else False)"

section \<open>Conditions\<close>

record condition =
  field :: string
  operator :: string
  cvalue :: json
  logical_operator :: "string option"

text \<open>A transaction is a JSON object (\<open>Record<string, unknown>\<close> in the client's types).\<close>

definition evaluateCondition :: "obj \<Rightarrow> condition \<Rightarrow> bool" where
  "evaluateCondition transaction c =
     (let fld = field c; opr = operator c; val = cvalue c
      in if isLineField fld then
           (case get_prop (JObj transaction) ''Line'' of
              JArr lines \<Rightarrow>
                (let lineFieldPath = drop 5 fld
                 in list_ex (\<lambda>line. compare (getNestedValue line lineFieldPath) opr val) lines)
            | _ \<Rightarrow> False)
         else compare (getNestedValue (JObj transaction) fld) opr val)"

text \<open>\<open>conditions[i].logical_operator || 'AND'\<close>: a missing or empty operator is \<open>AND\<close>.\<close>

definition logical_op :: "condition \<Rightarrow> string" where
  "logical_op c =
     (case logical_operator c of None \<Rightarrow> ''AND'' | Some s \<Rightarrow> if s = [] then ''AND'' else s)"

fun combine :: "obj \<Rightarrow> bool \<Rightarrow> condition list \<Rightarrow> bool" where
  "combine transaction result [] = result"
| "combine transaction result (c # cs) =
     (let op = logical_op c;
          condResult = evaluateCondition transaction c
      in combine transaction
           (if op = ''OR'' then result \<or> condResult else result \<and> condResult) cs)"

text \<open>The rule's \<open>conditions\<close> property may be missing: \<open>None\<close>.\<close>

definition evaluateConditions :: "obj \<Rightarrow> condition list option \<Rightarrow> bool" where
  "evaluateConditions transaction conditions =
     (case conditions of
        None \<Rightarrow> True
      | Some [] \<Rightarrow> True
      | Some (c0 # cs) \<Rightarrow> combine transaction (evaluateCondition transaction c0) cs)"

section \<open>Evidence\<close>

text \<open>
  Exceptions of the engine. \<open>FetchError\<close> is the error thrown when the accounting service
  cannot be read, with its message. \<open>TypeError\<close> is the engine's error for calling a
  member that a value does not have; the engine words its message, the model records the
  name of the member.
\<close>

datatype exn = FetchError string | TypeError string

fun message :: "exn \<Rightarrow> string" where
  "message (FetchError m) = m"
| "message (TypeError m) = m"

datatype flagged_field_data =
    LineFieldData (line_index: nat) (line_data: json) (field_path: string) (field_value: json)
  | ParentFieldData (parent_path: string) (parent_object: json) (field_name: string)
      (field_value: json)
  | TopLevelFieldData (field_name: string) (field_value: json) (parent_object: json)

record matched_condition =
  m_field :: string
  m_operator :: string
  m_value :: json
  actual_value :: json
  flagged_field_data :: "flagged_field_data option"

text \<open>\<open>Array.prototype.findIndex\<close>, with \<open>None\<close> for \<open>-1\<close>.\<close>

fun findIndex :: "('a \<Rightarrow> bool) \<Rightarrow> 'a list \<Rightarrow> nat option" where
  "findIndex p [] = None"
| "findIndex p (x # xs) = (if p x then Some 0 else map_option Suc (findIndex p xs))"

text \<open>
  The callback of \<open>rule.conditions.map\<close>. For a \<open>Line.\<close> field it calls \<open>findIndex\<close> on
  the transaction's \<open>Line\<close> property, whatever that is: only an array has the method.
\<close>

definition matched_condition_of :: "obj \<Rightarrow> condition \<Rightarrow> exn + matched_condition" where
  "matched_condition_of transaction c =
     (let actualValue = getNestedValue (JObj transaction) (field c)
      in if isLineField (field c) then
           (case get_prop (JObj transaction) ''Line'' of
              JArr lines \<Rightarrow>
                (let lineFieldPath = drop 5 (field c);
                     matchingLineIndex =
                       findIndex (\<lambda>line. compare (getNestedValue line lineFieldPath)
                                           (operator c) (cvalue c)) lines
                 in Inr \<lparr>m_field = field c, m_operator = operator c, m_value = cvalue c,
                         actual_value = actualValue,
                         flagged_field_data =
                           (case matchingLineIndex of
                              None \<Rightarrow> None
                            | Some i \<Rightarrow> Some (LineFieldData i (lines ! i) (field c) actualValue))\<rparr>)
            | _ \<Rightarrow> Inl (TypeError ''findIndex''))
         else
           (let fieldParts = split_on (CHR ''.'') (field c);
                parentPath = join ''.'' (butlast fieldParts);
                fieldName = last fieldParts
            in Inr \<lparr>m_field = field c, m_operator = operator c, m_value = cvalue c,
                    actual_value = actualValue,
                    flagged_field_data =
                      Some (if parentPath \<noteq> []
                            then ParentFieldData parentPath
                                   (getNestedValue (JObj transaction) parentPath)
                                   fieldName actualValue
                            else TopLevelFieldData (field c) actualValue (JObj transaction))\<rparr>))"

text \<open>\<open>Array.prototype.map\<close> with a callback that may throw: the first exception ends it.\<close>

fun map_result :: "('a \<Rightarrow> exn + 'b) \<Rightarrow> 'a list \<Rightarrow> exn + 'b list" where
  "map_result f [] = Inr []"
| "map_result f (x # xs) =
     (case f x of
        Inl e \<Rightarrow> Inl e
      | Inr y \<Rightarrow> (case map_result f xs of Inl e \<Rightarrow> Inl e | Inr ys \<Rightarrow> Inr (y # ys)))"

section \<open>Executing a rule\<close>

text \<open>
  The clock readings (\<open>execution_time\<close>, \<open>flagged_at\<close>, \<open>executed_at\<close>) are left out of
  the results. The fetch of the transactions is the argument \<open>fetched\<close>: the records of
  the entity, or the failure of the request.
\<close>

record rule =
  rule_id :: json
  rule_type :: string
  conditions :: "condition list option"
  action :: string
  reason :: string

record flagged_transaction =
  ft_id :: json
  transaction_data :: obj
  matched_conditions :: "matched_condition list"
  ft_action :: string
  ft_reason :: string

record execution_summary =
  total_checked :: nat
  flagged_count :: nat
  flag_rate :: "string option"

record rule_data =
  d_rule_id :: json
  d_rule_type :: string
  d_entity :: string
  total_transactions :: nat
  flagged_transactions :: "flagged_transaction list"
  execution_summary :: execution_summary

record rule_result =
  success :: bool
  error :: "string option"
  data :: "rule_data option"

datatype fetch_result = FetchFailed string | Records "obj list"

text \<open>\<open>x.toFixed(2)\<close> for \<open>\<bar>x\<bar> < 1e21\<close>: the nearest multiple of a hundredth, the larger
  one on a tie, printed with two decimals. The model rounds the exact quotient; the engine
  rounds the binary64 result of the division and the product, which can fall on the other
  side of a tie (23 of 160 is \<open>14.375\<close> exactly and prints as \<open>14.38\<close> here, while the engine
  computes \<open>14.374999999999998\<close> and prints \<open>14.37\<close>).\<close>

definition toFixed2 :: "rat \<Rightarrow> string" where
  "toFixed2 x =
     (let n = nat \<lfloor>\<bar>x\<bar> * 100 + 1 / 2\<rfloor>;
          m = show_nat n;
          m' = replicate (3 - length m) (CHR ''0'') @ m
      in (if x < 0 then ''-'' else []) @
         take (length m' - 2) m' @ ''.'' @ drop (length m' - 2) m')"

text \<open>The loop over the transactions, \<open>flagged\<close> being \<open>flaggedTransactions\<close> so far.\<close>

fun flag_loop :: "rule \<Rightarrow> flagged_transaction list \<Rightarrow> obj list \<Rightarrow> exn + flagged_transaction list"
  where
  "flag_loop rule flagged [] = Inr flagged"
| "flag_loop rule flagged (transaction # rest) =
     (if evaluateConditions transaction (conditions rule) then
        (case conditions rule of
           None \<Rightarrow> Inl (TypeError ''map'')
         | Some cs \<Rightarrow>
             (case map_result (matched_condition_of transaction) cs of
                Inl e \<Rightarrow> Inl e
              | Inr ms \<Rightarrow>
                  flag_loop rule
                    (flagged @
                       [\<lparr>ft_id = get_prop (JObj transaction) ''Id'',
                         transaction_data = transaction,
                         matched_conditions = ms,
                         ft_action = action rule,
                         ft_reason = reason rule\<rparr>])
                    rest))
      else flag_loop rule flagged rest)"

text \<open>The body of the \<open>try\<close> block of \<open>executeRule\<close>.\<close>

definition executeRule_try :: "rule \<Rightarrow> string \<Rightarrow> fetch_result \<Rightarrow> exn + rule_data" where
  "executeRule_try rule entity fetched =
     (case fetched of
        FetchFailed m \<Rightarrow> Inl (FetchError m)
      | Records transactions \<Rightarrow>
          if length transactions = 0 then
            Inr \<lparr>d_rule_id = rule_id rule, d_rule_type = rule_type rule, d_entity = entity,
                 total_transactions = 0, flagged_transactions = [],
                 execution_summary =
                   \<lparr>total_checked = 0, flagged_count = 0, flag_rate = None\<rparr>\<rparr>
          else
            (case flag_loop rule [] transactions of
               Inl e \<Rightarrow> Inl e
             | Inr flaggedTransactions \<Rightarrow>
                 Inr \<lparr>d_rule_id = rule_id rule, d_rule_type = rule_type rule,
                      d_entity = entity,
                      total_transactions = length transactions,
                      flagged_transactions = flaggedTransactions,
                      execution_summary =
                        \<lparr>total_checked = length transactions,
                         flagged_count = length flaggedTransactions,
                         flag_rate =
                           Some (if length transactions > 0
                                 then toFixed2 (of_nat (length flaggedTransactions)
                                                / of_nat (length transactions) * 100) @ ''%''
                                 else ''0%'')\<rparr>\<rparr>))"

definition executeRule :: "rule \<Rightarrow> string \<Rightarrow> fetch_result \<Rightarrow> rule_result" where
  "executeRule rule entity fetched =
     (case executeRule_try rule entity fetched of
        Inr d \<Rightarrow> \<lparr>success = True, error = None, data = Some d\<rparr>
      | Inl e \<Rightarrow> \<lparr>success = False,
                  error = Some (''Failed to execute rule: '' @ message e),
                  data = None\<rparr>)"

section \<open>Executing several rules\<close>

text \<open>
  \<open>executeMultipleRules\<close> calls \<open>executeRule\<close> for each rule in turn, and each call
  fetches the transactions again: \<open>fetch i\<close> is the outcome of the fetch made for the
  rule at position \<open>i\<close>.
\<close>

record batch_summary =
  total_rules_executed :: nat
  successful_executions :: nat
  failed_executions :: nat
  total_transactions_checked :: nat
  total_transactions_flagged :: nat

record batch_data =
  summary :: batch_summary
  individual_results :: "rule_result list"

record batch_result =
  b_success :: bool
  b_error :: "string option"
  b_data :: "batch_data option"

fun run_rules :: "string \<Rightarrow> (nat \<Rightarrow> fetch_result) \<Rightarrow> nat \<Rightarrow> rule_result list \<Rightarrow> rule list
    \<Rightarrow> rule_result list" where
  "run_rules entity fetch i results [] = results"
| "run_rules entity fetch i results (rule # rules) =
     run_rules entity fetch (Suc i) (results @ [executeRule rule entity (fetch i)]) rules"

definition aggregate :: "batch_summary \<Rightarrow> rule_result \<Rightarrow> batch_summary" where
  "aggregate s r =
     (case data r of
        Some d \<Rightarrow>
          if success r then
            s\<lparr>total_transactions_checked :=
                 total_transactions_checked s + total_checked (execution_summary d),
               total_transactions_flagged :=
                 total_transactions_flagged s + flagged_count (execution_summary d)\<rparr>
          else s
      | None \<Rightarrow> s)"

definition executeMultipleRules :: "rule list \<Rightarrow> string \<Rightarrow> (nat \<Rightarrow> fetch_result) \<Rightarrow> batch_result"
  where
  "executeMultipleRules rules entity fetch =
     (let results = run_rules entity fetch 0 [] rules;
          summary0 = \<lparr>total_rules_executed = length rules,
                      successful_executions = length (filter success results),
                      failed_executions = length (filter (\<lambda>r. \<not> success r) results),
                      total_transactions_checked = 0,
                      total_transactions_flagged = 0\<rparr>
      in \<lparr>b_success = True, b_error = None,
           b_data = Some \<lparr>summary = foldl aggregate summary0 results,
                          individual_results = results\<rparr>\<rparr>)"

section \<open>Auxiliary notions for the properties\<close>

text \<open>The entry of a transaction flagged by a rule without conditions.\<close>

definition mk_flagged :: "rule \<Rightarrow> obj \<Rightarrow> flagged_transaction" where
  "mk_flagged rule t = \<lparr>ft_id = get_prop (JObj t) ''Id'', transaction_data = t,
      matched_conditions = [], ft_action = action rule, ft_reason = reason rule\<rparr>"

text \<open>The actual values reported by a result: one list per flagged transaction.\<close>

definition actual_values :: "rule_result \<Rightarrow> json list list" where
  "actual_values r =
     (case data r of
        None \<Rightarrow> []
      | Some d \<Rightarrow> map (\<lambda>ft. map actual_value (matched_conditions ft)) (flagged_transactions d))"

text \<open>
  The equality of the specification, in its words: two values are equal if their string
  coercions match, unless both parse as numbers, in which case numeric equality is used.
  Parsing is that of the operators \<open>gt\<close> and \<open>lt\<close>. This is not the code's equality,
  which is \<open>looseEq\<close>.
\<close>

definition spec_loose_equal :: "json \<Rightarrow> json \<Rightarrow> bool" where
  "spec_loose_equal a b =
     (if parseFloat a \<noteq> NaN \<and> parseFloat b \<noteq> NaN then num_eq (parseFloat a) (parseFloat b)
      else toString a = toString b)"

text \<open>
  The limits within which the exact decimals and byte strings of the model are the doubles
  and strings of the engine. A decimal of at most 15 significant digits in the normal
  range of binary64 is carried by one double and no two of them by the same, so two such
  numbers are equal exactly when their doubles are. On an ASCII string the white space
  that \<open>ToNumber\<close> trims is the white space of the model.
\<close>

definition exact_number :: "int \<Rightarrow> int \<Rightarrow> bool" where
  "exact_number m e = (m = 0 \<or> (\<bar>m\<bar> < 10 ^ 15 \<and> - 292 \<le> e \<and> e \<le> 292))"

definition ascii_string :: "string \<Rightarrow> bool" where
  "ascii_string s = list_all (\<lambda>c. (of_char c :: nat) < 128) s"

text \<open>
  The string-keyed members that an array inherits from \<open>Array.prototype\<close> and
  \<open>Object.prototype\<close> (ECMAScript 2025 with its Annex B). On these keys \<open>current[key]\<close>
  yields an object of the engine and not \<open>undefined\<close>.
\<close>

definition array_prototype_members :: "string list" where
  "array_prototype_members =
     [''at'', ''concat'', ''constructor'', ''copyWithin'', ''entries'', ''every'', ''fill'',
      ''filter'', ''find'', ''findIndex'', ''findLast'', ''findLastIndex'', ''flat'',
      ''flatMap'', ''forEach'', ''includes'', ''indexOf'', ''join'', ''keys'',
      ''lastIndexOf'', ''map'', ''pop'', ''push'', ''reduce'', ''reduceRight'', ''reverse'',
      ''shift'', ''slice'', ''some'', ''sort'', ''splice'', ''toLocaleString'',
      ''toReversed'', ''toSorted'', ''toSpliced'', ''toString'', ''unshift'', ''values'',
      ''with'']"

definition object_prototype_members :: "string list" where
  "object_prototype_members =
     [''constructor'', ''hasOwnProperty'', ''isPrototypeOf'', ''propertyIsEnumerable'',
      ''toLocaleString'', ''toString'', ''valueOf'', ''__proto__'', ''__defineGetter__'',
      ''__defineSetter__'', ''__lookupGetter__'', ''__lookupSetter__'']"

definition inherited_by_array :: "string \<Rightarrow> bool" where
  "inherited_by_array k = (k \<in> set (array_prototype_members @ object_prototype_members))"

section \<open>Example data\<close>

definition grouping_tx :: obj where
  "grouping_tx = [(''Id'', JStr ''7''), (''TotalAmt'', JStr ''600'')]"

definition cond_A :: condition where
  "cond_A = \<lparr>field = ''TotalAmt'', operator = ''eq'', cvalue = JStr ''100'',
             logical_operator = None\<rparr>"

definition cond_B :: condition where
  "cond_B = \<lparr>field = ''Id'', operator = ''eq'', cvalue = JStr ''7'',
             logical_operator = Some ''AND''\<rparr>"

definition cond_C :: condition where
  "cond_C = \<lparr>field = ''TotalAmt'', operator = ''eq'', cvalue = JStr ''600'',
             logical_operator = Some ''OR''\<rparr>"

definition line_tx :: obj where
  "line_tx = [(''Id'', JStr ''3''),
              (''Line'', JArr [JObj [(''Amount'', JNum 150 0)], JObj [(''Amount'', JNum 50 0)]])]"

definition line_cond :: condition where
  "line_cond = \<lparr>field = ''Line.Amount'', operator = ''gt'', cvalue = JNum 100 0,
                logical_operator = None\<rparr>"

definition tx_600 :: obj where
  "tx_600 = [(''Id'', JStr ''1''), (''TotalAmt'', JStr ''600'')]"

definition tx_100 :: obj where
  "tx_100 = [(''Id'', JStr ''2''), (''TotalAmt'', JStr ''100'')]"

definition amount_cond :: condition where
  "amount_cond = \<lparr>field = ''TotalAmt'', operator = ''gt'', cvalue = JNum 500 0,
                  logical_operator = None\<rparr>"

definition or_cond :: condition where
  "or_cond = \<lparr>field = ''TotalAmt'', operator = ''eq'', cvalue = JStr ''600'',
              logical_operator = Some ''OR''\<rparr>"

definition count_cond :: condition where
  "count_cond = \<lparr>field = ''Line.length'', operator = ''gt'', cvalue = JNum 0 0,
                 logical_operator = None\<rparr>"

definition id_cond :: condition where
  "id_cond = \<lparr>field = ''Id'', operator = ''eq'', cvalue = JStr ''3'',
              logical_operator = Some ''OR''\<rparr>"

definition rule_amount :: rule where
  "rule_amount = \<lparr>rule_id = JStr ''r1'', rule_type = ''amount'',
                  conditions = Some [amount_cond], action = ''flag'', reason = ''large''\<rparr>"

definition rule_line :: rule where
  "rule_line = \<lparr>rule_id = JStr ''r2'', rule_type = ''line'',
                conditions = Some [line_cond], action = ''flag'', reason = ''large line''\<rparr>"

definition rule_line_or :: rule where
  "rule_line_or = \<lparr>rule_id = JStr ''r3'', rule_type = ''line'',
                   conditions = Some [line_cond, or_cond], action = ''review'',
                   reason = ''large line or total''\<rparr>"

definition rule_none :: rule where
  "rule_none = \<lparr>rule_id = JStr ''r4'', rule_type = ''all'',
                conditions = Some [], action = ''flag'', reason = ''everything''\<rparr>"

definition rule_count :: rule where
  "rule_count = \<lparr>rule_id = JStr ''r5'', rule_type = ''count'',
                 conditions = Some [count_cond, id_cond], action = ''flag'',
                 reason = ''has lines''\<rparr>"

definition line_mc :: matched_condition where
  "line_mc = \<lparr>m_field = ''Line.Amount'', m_operator = ''gt'', m_value = JNum 100 0,
              actual_value = JUndefined,
              flagged_field_data =
                Some (LineFieldData 0 (JObj [(''Amount'', JNum 150 0)]) ''Line.Amount''
                        JUndefined)\<rparr>"

definition line_ft :: flagged_transaction where
  "line_ft = \<lparr>ft_id = JStr ''3'', transaction_data = line_tx, matched_conditions = [line_mc],
              ft_action = ''flag'', ft_reason = ''large line''\<rparr>"

definition line_result :: rule_data where
  "line_result = \<lparr>d_rule_id = JStr ''r2'', d_rule_type = ''line'', d_entity = ''Purchase'',
                total_transactions = 1, flagged_transactions = [line_ft],
                execution_summary =
                  \<lparr>total_checked = 1, flagged_count = 1, flag_rate = Some ''100.00%''\<rparr>\<rparr>"

section \<open>Properties of the comparison\<close>

text \<open>
  Claim C6. Whatever the operator and the target, \<open>compare\<close> is false when the actual
  value is absent (\<open>undefined\<close> or \<open>null\<close>); this covers the negated operators \<open>ne\<close>,
  \<open>not_contains\<close>, \<open>not_in\<close> and every unknown operator.
\<close>

theorem compare_absent_false:
  "compare JUndefined opr target = False \<and> compare JNull opr target = False"
  by (simp add: compare_def)

text \<open>
  Claim C8. When the target is not an array, \<open>in\<close> and \<open>not_in\<close> are both false: on
  such a target the two operators are not complements of each other.
\<close>

theorem compare_in_not_in_non_array:
  "\<not> isArray target \<Longrightarrow>
     compare actual ''in'' target = False \<and> compare actual ''not_in'' target = False"
  by (cases target) (simp_all add: compare_def)

theorem compare_in_not_in_non_array_witness:
  "\<not> isArray (JStr ''not-an-array'')
   \<and> compare (JNum 5 0) ''in'' (JStr ''not-an-array'') = False
   \<and> compare (JNum 5 0) ''not_in'' (JStr ''not-an-array'') = False"
  using compare_in_not_in_non_array [of "JStr ''not-an-array''" "JNum 5 0"] by simp

section \<open>Properties of the condition fold\<close>

lemma combine_foldl:
  "combine t acc cs =
     foldl (\<lambda>acc c. if logical_operator c = Some ''OR''
                     then acc \<or> evaluateCondition t c else acc \<and> evaluateCondition t c) acc cs"
  by (induction cs arbitrary: acc) (auto simp: logical_op_def Let_def split: option.splits)

lemma evaluateCondition_logical_operator:
  "evaluateCondition t (c\<lparr>logical_operator := x\<rparr>) = evaluateCondition t c"
  by (simp add: evaluateCondition_def)

lemma grouping_example:
  "evaluateConditions grouping_tx (Some [cond_A, cond_B, cond_C]) = True
   \<and> (evaluateCondition grouping_tx cond_A
       \<and> (evaluateCondition grouping_tx cond_B \<or> evaluateCondition grouping_tx cond_C)) = False"
  by code_simp

text \<open>
  Claim C1. On a non-empty condition list \<open>evaluateConditions\<close> is the left-to-right
  fold seeded with the outcome of the first condition: each later condition is evaluated
  on its own and joined to the accumulator by its own logical operator, \<open>OR\<close> when it is
  exactly \<open>OR\<close> and \<open>AND\<close> otherwise (also when it is missing). There is no grouping:
  \<open>A AND B OR C\<close> is \<open>(A AND B) OR C\<close>, and on the transaction \<open>grouping_tx\<close> this is
  true while \<open>A AND (B OR C)\<close> is false. Evaluating a condition has no effect and always
  returns in the model, so that every condition is evaluated shows in the fold taking the
  outcome of each of them.
\<close>

theorem evaluateConditions_flat_fold:
  "evaluateConditions t (Some (c0 # cs)) =
     foldl (\<lambda>acc c. if logical_operator c = Some ''OR''
                     then acc \<or> evaluateCondition t c else acc \<and> evaluateCondition t c)
       (evaluateCondition t c0) cs
   \<and> evaluateConditions t
       (Some [a, b\<lparr>logical_operator := None\<rparr>, c\<lparr>logical_operator := Some ''OR''\<rparr>]) =
       ((evaluateCondition t a \<and> evaluateCondition t b) \<or> evaluateCondition t c)
   \<and> evaluateConditions grouping_tx (Some [cond_A, cond_B, cond_C]) \<noteq>
       (evaluateCondition grouping_tx cond_A
        \<and> (evaluateCondition grouping_tx cond_B \<or> evaluateCondition grouping_tx cond_C))"
  using grouping_example
  by (simp add: evaluateConditions_def combine_foldl evaluateCondition_logical_operator)

section \<open>Properties of the line fan-out\<close>

text \<open>
  Claim C2. For a condition on a field \<open>Line.p\<close>: when the transaction has no \<open>Line\<close>
  property or one that is not an array the condition is false; otherwise it is true
  exactly when some element of \<open>Line\<close> satisfies the comparison on the value that the
  sub-path \<open>p\<close> (the field without its five-character prefix) resolves to in that element.
\<close>

theorem evaluateCondition_line:
  assumes "field c = ''Line.'' @ subPath"
  shows "evaluateCondition t c =
     (case map_of t ''Line'' of
        Some (JArr lines) \<Rightarrow>
          (\<exists>line \<in> set lines. compare (getNestedValue line subPath) (operator c) (cvalue c))
      | _ \<Rightarrow> False)"
  using assms
  by (auto simp: evaluateCondition_def isLineField_def startsWith_def list_ex_iff
      split: option.splits json.splits)

theorem evaluateCondition_line_witness:
  "field line_cond = ''Line.'' @ ''Amount''
   \<and> evaluateCondition line_tx line_cond = True
   \<and> evaluateCondition [(''Id'', JStr ''2''), (''Line'', JStr ''none'')] line_cond = False"
proof -
  have f: "field line_cond = ''Line.'' @ ''Amount''"
    by (simp add: line_cond_def)
  have "evaluateCondition line_tx line_cond =
     (case map_of line_tx ''Line'' of
        Some (JArr lines) \<Rightarrow>
          (\<exists>line \<in> set lines. compare (getNestedValue line ''Amount'')
                                   (operator line_cond) (cvalue line_cond))
      | _ \<Rightarrow> False)"
    by (rule evaluateCondition_line [OF f])
  also have "\<dots> = True"
    by code_simp
  finally have a: "evaluateCondition line_tx line_cond = True" .
  have b: "evaluateCondition [(''Id'', JStr ''2''), (''Line'', JStr ''none'')] line_cond = False"
    using evaluateCondition_line [OF f, of "[(''Id'', JStr ''2''), (''Line'', JStr ''none'')]"]
    by simp
  from f a b show ?thesis by simp
qed

section \<open>Properties of the equality operators\<close>

text \<open>
  Claim C5, as stated, fails: it takes \<open>eq\<close> to be the equality of the specification
  (\<open>spec_loose_equal\<close>), under which \<open>"1.0"\<close> and \<open>"1"\<close> are equal because both parse as
  the number one. The code applies \<open>==\<close>, which compares two strings as strings.
\<close>

theorem eq_strings_counterexample:
  "compare (JStr ''1.0'') ''eq'' (JStr ''1'') = False
   \<and> spec_loose_equal (JStr ''1.0'') (JStr ''1'') = True"
  by code_simp

text \<open>
  Claim C5, amended. For a non-absent actual value \<open>ne\<close> is the negation of \<open>eq\<close>, and
  \<open>eq\<close> is the loose equality \<open>==\<close> of the engine: it is false against an absent target;
  two strings are equal when they are the same string, with no numeric parsing; two
  numbers are equal when they have the same value; a number and a string are equal when
  the whole string converts to that number, and unequal when the string converts to no
  number. The statements on numbers are for numbers of at most 15 significant digits and
  ASCII strings, where the decimals of the model are the doubles of the engine.
\<close>

theorem compare_eq_ne:
  "(\<not> is_absent actual \<longrightarrow>
      compare actual ''ne'' target = (\<not> compare actual ''eq'' target))
   \<and> (\<not> is_absent actual' \<and> is_absent target' \<longrightarrow> compare actual' ''eq'' target' = False)
   \<and> compare (JStr a) ''eq'' (JStr b) = (a = b)
   \<and> (exact_number m e \<and> exact_number m' e' \<longrightarrow>
        compare (JNum m e) ''eq'' (JNum m' e') = (dec_value m e = dec_value m' e'))
   \<and> (exact_number n d \<and> exact_number n' d' \<and> ascii_string s
        \<and> string_to_number s = Fin (dec_value n' d') \<longrightarrow>
        compare (JNum n d) ''eq'' (JStr s) = (dec_value n d = dec_value n' d')
        \<and> compare (JStr s) ''eq'' (JNum n d) = (dec_value n d = dec_value n' d'))
   \<and> (ascii_string t \<and> string_to_number t = NaN \<longrightarrow>
        compare (JNum k l) ''eq'' (JStr t) = False
        \<and> compare (JStr t) ''eq'' (JNum k l) = False)"
proof -
  have ne: "\<not> is_absent actual \<longrightarrow>
      compare actual ''ne'' target = (\<not> compare actual ''eq'' target)"
    by (cases actual) (simp_all add: compare_def)
  have ab: "\<not> is_absent actual' \<and> is_absent target' \<longrightarrow> compare actual' ''eq'' target' = False"
    by (cases actual') (simp_all add: compare_def looseEq_def)
  have ss: "compare (JStr a) ''eq'' (JStr b) = (a = b)"
    by (simp add: compare_def looseEq_def toPrimitive_def)
  have nn: "compare (JNum m e) ''eq'' (JNum m' e') = (dec_value m e = dec_value m' e')"
    by (simp add: compare_def looseEq_def toPrimitive_def)
  have ns: "string_to_number s = Fin (dec_value n' d') \<longrightarrow>
        compare (JNum n d) ''eq'' (JStr s) = (dec_value n d = dec_value n' d')
        \<and> compare (JStr s) ''eq'' (JNum n d) = (dec_value n d = dec_value n' d')"
    by (auto simp: compare_def looseEq_def toPrimitive_def)
  have nan: "string_to_number t = NaN \<longrightarrow>
        compare (JNum k l) ''eq'' (JStr t) = False
        \<and> compare (JStr t) ''eq'' (JNum k l) = False"
    by (simp add: compare_def looseEq_def toPrimitive_def)
  from ne ab ss nn ns nan show ?thesis by blast
qed

lemma eq_number_string_example:
  "exact_number 5 0 \<and> ascii_string ''5.0'' \<and> string_to_number ''5.0'' = Fin (dec_value 5 0)
   \<and> ascii_string ''abc'' \<and> string_to_number ''abc'' = NaN
   \<and> exact_number 15075 (- 2) \<and> exact_number 1508 (- 1)"
  by code_simp

theorem compare_eq_ne_witness:
  "\<not> is_absent (JNum 5 0) \<and> is_absent JNull
   \<and> exact_number 5 0 \<and> ascii_string ''5.0'' \<and> string_to_number ''5.0'' = Fin (dec_value 5 0)
   \<and> ascii_string ''abc'' \<and> string_to_number ''abc'' = NaN
   \<and> exact_number 15075 (- 2) \<and> exact_number 1508 (- 1)
   \<and> compare (JNum 5 0) ''ne'' (JStr ''5.0'') = (\<not> compare (JNum 5 0) ''eq'' (JStr ''5.0''))
   \<and> compare (JNum 5 0) ''eq'' JNull = False
   \<and> compare (JStr ''a'') ''eq'' (JStr ''a'') = True
   \<and> compare (JNum 15075 (- 2)) ''eq'' (JNum 1508 (- 1))
       = (dec_value 15075 (- 2) = dec_value 1508 (- 1))
   \<and> compare (JNum 5 0) ''eq'' (JStr ''5.0'') = True
   \<and> compare (JStr ''5.0'') ''eq'' (JNum 5 0) = True
   \<and> compare (JNum 5 0) ''eq'' (JStr ''abc'') = False
   \<and> compare (JStr ''abc'') ''eq'' (JNum 5 0) = False"
  using compare_eq_ne [where actual = "JNum 5 0" and target = "JStr ''5.0''"
      and actual' = "JNum 5 0" and target' = JNull and a = "''a''" and b = "''a''"
      and m = 15075 and e = "- 2" and m' = 1508 and e' = "- 1"
      and n = 5 and d = 0 and n' = 5 and d' = 0 and s = "''5.0''"
      and t = "''abc''" and k = 5 and l = 0]
    eq_number_string_example
  by simp

section \<open>Properties of rule execution\<close>

lemma flag_loop_no_conditions:
  "conditions rule = Some [] \<Longrightarrow>
     flag_loop rule acc ts = Inr (acc @ map (mk_flagged rule) ts)"
  by (induction ts arbitrary: acc) (simp_all add: evaluateConditions_def mk_flagged_def)

text \<open>
  Claim C7. On an empty condition list the fold is true for every transaction, and
  \<open>executeRule\<close> succeeds with every transaction of the batch flagged, in order.
\<close>

theorem empty_conditions_flag_all:
  assumes "conditions rule = Some []"
  shows "evaluateConditions t (conditions rule) = True
    \<and> (\<exists>d. executeRule rule entity (Records ts) = \<lparr>success = True, error = None, data = Some d\<rparr>
          \<and> map transaction_data (flagged_transactions d) = ts
          \<and> flagged_count (execution_summary d) = length ts
          \<and> total_checked (execution_summary d) = length ts)"
  using assms
  by (cases ts)
     (simp_all add: evaluateConditions_def executeRule_def executeRule_try_def
        flag_loop_no_conditions mk_flagged_def comp_def)

theorem empty_conditions_flag_all_witness:
  "conditions rule_none = Some []
   \<and> evaluateConditions tx_600 (conditions rule_none) = True
   \<and> (\<exists>d. executeRule rule_none ''Purchase'' (Records [tx_600, tx_100]) =
             \<lparr>success = True, error = None, data = Some d\<rparr>
          \<and> map transaction_data (flagged_transactions d) = [tx_600, tx_100]
          \<and> flagged_count (execution_summary d) = 2
          \<and> total_checked (execution_summary d) = 2)"
proof -
  have h: "conditions rule_none = Some []"
    by (simp add: rule_none_def)
  from empty_conditions_flag_all [OF h, of tx_600 "''Purchase''" "[tx_600, tx_100]"] h
  show ?thesis by (simp add: numeral_2_eq_2)
qed

text \<open>
  Claim C4 fails on the empty batch. \<open>executeRule\<close> returns early there, with a summary
  that has no \<open>flag_rate\<close> at all, so the rate is absent and not the string \<open>0%\<close>; the
  \<open>0%\<close> branch of the later summary is never reached, since that summary is built only
  for a non-empty batch.
\<close>

theorem flag_rate_empty_batch:
  "executeRule rule entity (Records []) =
     \<lparr>success = True, error = None,
      data = Some \<lparr>d_rule_id = rule_id rule, d_rule_type = rule_type rule, d_entity = entity,
                   total_transactions = 0, flagged_transactions = [],
                   execution_summary =
                     \<lparr>total_checked = 0, flagged_count = 0, flag_rate = None\<rparr>\<rparr>\<rparr>"
  by (simp add: executeRule_def executeRule_try_def)

lemma flag_rate_one_of_three:
  "map_option (flag_rate \<circ> execution_summary)
     (data (executeRule rule_amount ''Purchase'' (Records [tx_600, tx_100, tx_100]))) =
   Some (Some ''33.33%'')"
  by code_simp

lemma run_rules_map:
  "run_rules entity fetch i acc rules =
     acc @ map (\<lambda>k. executeRule (rules ! k) entity (fetch (i + k))) [0..<length rules]"
proof (induction rules arbitrary: i acc)
  case Nil
  then show ?case by simp
next
  case (Cons r rs)
  have "[0..<length (r # rs)] = 0 # map Suc [0..<length rs]"
    by (simp add: upt_conv_Cons map_Suc_upt del: upt_Suc)
  then have "map (\<lambda>k. executeRule ((r # rs) ! k) entity (fetch (i + k))) [0..<length (r # rs)] =
        executeRule r entity (fetch i) #
        map (\<lambda>k. executeRule (rs ! k) entity (fetch (Suc i + k))) [0..<length rs]"
    by (simp add: comp_def)
  with Cons show ?case by simp
qed

lemma fault_example:
  "executeRule_try rule_line_or ''Purchase'' (Records [tx_600, tx_100]) =
     Inl (TypeError ''findIndex'')"
  by code_simp

lemma batch_example:
  "map success
     [executeRule rule_amount ''Purchase'' (Records [tx_600, tx_100]),
      executeRule rule_line_or ''Purchase'' (Records [tx_600, tx_100]),
      executeRule rule_line ''Purchase'' (Records [tx_600, tx_100])] = [True, False, True]"
  by code_simp

text \<open>
  Claim C3. An exception raised in the \<open>try\<close> block of \<open>executeRule\<close> becomes the result
  \<open>{success: false, error, data: null}\<close>; \<open>executeRule\<close> itself always returns a result.
  \<open>executeMultipleRules\<close> returns one entry per rule, in the order of the rules, and the
  entry of a rule is the result of \<open>executeRule\<close> on that rule alone: a fault of one rule
  is in its own entry and leaves the other entries as they are.
\<close>

theorem faults_are_results:
  "(executeRule_try rule entity fetched = Inl e \<longrightarrow>
      executeRule rule entity fetched =
        \<lparr>success = False, error = Some (''Failed to execute rule: '' @ message e), data = None\<rparr>)
   \<and> (\<exists>s. executeMultipleRules rules entity fetch =
          \<lparr>b_success = True, b_error = None,
           b_data = Some \<lparr>summary = s,
                          individual_results =
                            map (\<lambda>k. executeRule (rules ! k) entity (fetch k))
                              [0..<length rules]\<rparr>\<rparr>)"
  by (simp add: executeRule_def executeMultipleRules_def run_rules_map Let_def)

theorem faults_are_results_witness:
  "executeRule_try rule_line_or ''Purchase'' (Records [tx_600, tx_100]) =
     Inl (TypeError ''findIndex'')
   \<and> executeRule rule_line_or ''Purchase'' (Records [tx_600, tx_100]) =
       \<lparr>success = False, error = Some ''Failed to execute rule: findIndex'', data = None\<rparr>
   \<and> (\<exists>s. executeMultipleRules [rule_amount, rule_line_or, rule_line] ''Purchase''
             (\<lambda>k. Records [tx_600, tx_100]) =
           \<lparr>b_success = True, b_error = None,
            b_data = Some \<lparr>summary = s,
                           individual_results =
                             [executeRule rule_amount ''Purchase'' (Records [tx_600, tx_100]),
                              executeRule rule_line_or ''Purchase'' (Records [tx_600, tx_100]),
                              executeRule rule_line ''Purchase'' (Records [tx_600, tx_100])]\<rparr>\<rparr>)
   \<and> map success
       [executeRule rule_amount ''Purchase'' (Records [tx_600, tx_100]),
        executeRule rule_line_or ''Purchase'' (Records [tx_600, tx_100]),
        executeRule rule_line ''Purchase'' (Records [tx_600, tx_100])] = [True, False, True]"
proof -
  note t = faults_are_results [where rule = rule_line_or and entity = "''Purchase''"
      and fetched = "Records [tx_600, tx_100]" and e = "TypeError ''findIndex''"
      and rules = "[rule_amount, rule_line_or, rule_line]"
      and fetch = "\<lambda>k. Records [tx_600, tx_100]"]
  have a: "executeRule rule_line_or ''Purchase'' (Records [tx_600, tx_100]) =
       \<lparr>success = False, error = Some ''Failed to execute rule: findIndex'', data = None\<rparr>"
    using t fault_example by simp
  have b: "\<exists>s. executeMultipleRules [rule_amount, rule_line_or, rule_line] ''Purchase''
             (\<lambda>k. Records [tx_600, tx_100]) =
           \<lparr>b_success = True, b_error = None,
            b_data = Some \<lparr>summary = s,
                           individual_results =
                             [executeRule rule_amount ''Purchase'' (Records [tx_600, tx_100]),
                              executeRule rule_line_or ''Purchase'' (Records [tx_600, tx_100]),
                              executeRule rule_line ''Purchase'' (Records [tx_600, tx_100])]\<rparr>\<rparr>"
    using t [THEN conjunct2] by (simp add: upt_rec)
  from fault_example a b batch_example show ?thesis
    by (intro conjI)
qed

section \<open>Properties of the evidence\<close>

lemma matched_condition_of_non_array:
  "isLineField (field c) \<Longrightarrow> \<not> isArray (get_prop (JObj t) ''Line'') \<Longrightarrow>
     matched_condition_of t c = Inl (TypeError ''findIndex'')"
  by (cases "get_prop (JObj t) ''Line''") (simp_all add: matched_condition_of_def Let_def)

lemma map_result_fault:
  "c \<in> set cs \<Longrightarrow> f c = Inl e \<Longrightarrow> \<exists>e'. map_result f cs = Inl e'"
  by (induction cs) (auto split: sum.splits)

lemma flag_loop_fault:
  assumes "conditions rule = Some cs" "t \<in> set ts" "evaluateConditions t (Some cs)"
    "map_result (matched_condition_of t) cs = Inl e"
  shows "\<exists>e'. flag_loop rule acc ts = Inl e'"
  using assms(2)
proof (induction ts arbitrary: acc)
  case Nil
  then show ?case by simp
next
  case (Cons x xs)
  show ?case
  proof (cases "x = t")
    case True
    with assms show ?thesis by simp
  next
    case False
    with Cons have "\<And>acc. \<exists>e'. flag_loop rule acc xs = Inl e'" by simp
    with assms(1) show ?thesis by (auto split: sum.splits)
  qed
qed

text \<open>
  Claim C9. Let a rule have a condition on a \<open>Line.\<close> field, and let a transaction of the
  batch pass the condition fold although its \<open>Line\<close> property is not an array (through a
  condition joined by \<open>OR\<close>, say). Evaluating the conditions succeeds, but building the
  evidence calls \<open>findIndex\<close> on that property without the array test of
  \<open>evaluateCondition\<close>; the exception is caught by \<open>executeRule\<close>, which returns a failure
  without data: the transactions flagged so far are lost. The witness below is such a rule
  and batch.
\<close>

theorem line_evidence_fault:
  assumes "conditions rule = Some cs" and "c \<in> set cs" and "isLineField (field c)"
    and "t \<in> set ts" and "\<not> isArray (get_prop (JObj t) ''Line'')"
    and "evaluateConditions t (conditions rule)"
  shows "success (executeRule rule entity (Records ts)) = False
    \<and> data (executeRule rule entity (Records ts)) = None"
proof -
  have "matched_condition_of t c = Inl (TypeError ''findIndex'')"
    using assms(3,5) by (rule matched_condition_of_non_array)
  from map_result_fault [of c cs "matched_condition_of t", OF assms(2) this]
  obtain e where e: "map_result (matched_condition_of t) cs = Inl e" ..
  have ev: "evaluateConditions t (Some cs)"
    using assms(1,6) by simp
  from flag_loop_fault [OF assms(1,4) ev e]
  obtain e' where "flag_loop rule [] ts = Inl e'" ..
  moreover from assms(4) have "ts \<noteq> []" by auto
  ultimately show ?thesis
    by (simp add: executeRule_def executeRule_try_def)
qed

lemma line_fault_example:
  "evaluateConditions tx_600 (conditions rule_line_or)
   \<and> evaluateConditions line_tx (conditions rule_line_or)
   \<and> \<not> isArray (get_prop (JObj tx_600) ''Line'')"
  by code_simp

theorem line_evidence_fault_witness:
  "conditions rule_line_or = Some [line_cond, or_cond]
   \<and> line_cond \<in> set [line_cond, or_cond]
   \<and> isLineField (field line_cond)
   \<and> tx_600 \<in> set [line_tx, tx_600]
   \<and> \<not> isArray (get_prop (JObj tx_600) ''Line'')
   \<and> evaluateConditions tx_600 (conditions rule_line_or)
   \<and> evaluateConditions line_tx (conditions rule_line_or)
   \<and> success (executeRule rule_line_or ''Purchase'' (Records [line_tx, tx_600])) = False
   \<and> data (executeRule rule_line_or ''Purchase'' (Records [line_tx, tx_600])) = None"
proof -
  have c: "conditions rule_line_or = Some [line_cond, or_cond]"
    by (simp add: rule_line_or_def)
  have m: "line_cond \<in> set [line_cond, or_cond]" by simp
  have f: "isLineField (field line_cond)"
    by (simp add: line_cond_def isLineField_def startsWith_def)
  have t: "tx_600 \<in> set [line_tx, tx_600]" by simp
  from line_fault_example have a: "\<not> isArray (get_prop (JObj tx_600) ''Line'')"
    and e: "evaluateConditions tx_600 (conditions rule_line_or)"
    and e': "evaluateConditions line_tx (conditions rule_line_or)"
    by blast+
  from line_evidence_fault [OF c m f t a e, of "''Purchase''"] c m f t a e e'
  show ?thesis by blast
qed

text \<open>
  Claim C10, as stated, fails: the sub-path \<open>length\<close> does not begin with an integer
  segment, and the actual value of a condition on \<open>Line.length\<close> is the number of lines of
  the transaction, since the path is resolved from the transaction and \<open>length\<close> is a
  property of the \<open>Line\<close> array.
\<close>

theorem line_length_counterexample:
  "isLineField (field count_cond)
   \<and> drop 5 (field count_cond) = ''length''
   \<and> \<not> is_index_key ''length''
   \<and> success (executeRule rule_count ''Purchase'' (Records [line_tx]))
   \<and> actual_values (executeRule rule_count ''Purchase'' (Records [line_tx])) =
       [[JNum 2 0, JStr ''3'']]"
  by code_simp

lemma split_on_nonempty: "split_on d s \<noteq> []"
  by (induction s) (auto split: list.splits)

lemma foldl_absent:
  "foldl (\<lambda>current key.
            if current = JUndefined \<or> current = JNull then JUndefined
            else if is_index_key key then get_index current (digits_val key)
            else get_prop current key) JUndefined keys = JUndefined"
  by (induction keys) simp_all

lemma get_prop_array_data_key:
  "k \<noteq> ''length'' \<Longrightarrow> \<not> inherited_by_array k \<Longrightarrow> get_prop (JArr xs) k = JUndefined"
  by simp

lemma getNestedValue_line_array:
  assumes "get_prop (JObj t) ''Line'' = JArr lines"
    and "\<not> is_index_key (hd (split_on (CHR ''.'') subPath))"
    and "hd (split_on (CHR ''.'') subPath) \<noteq> ''length''"
    and "\<not> inherited_by_array (hd (split_on (CHR ''.'') subPath))"
  shows "getNestedValue (JObj t) (''Line.'' @ subPath) = JUndefined"
proof -
  obtain seg rest where sp: "split_on (CHR ''.'') subPath = seg # rest"
    using split_on_nonempty by (cases "split_on (CHR ''.'') subPath") auto
  have l: "\<not> is_index_key ''Line''"
    by (simp add: is_index_key_def is_digit_def)
  have k: "get_prop (JArr lines) seg = JUndefined"
    using assms(3,4) sp by (intro get_prop_array_data_key) simp_all
  have "split_on (CHR ''.'') (''Line.'' @ subPath) = ''Line'' # seg # rest"
    using sp by (simp split: list.splits)
  then show ?thesis
    using assms(1,2) sp l k
    by (simp add: getNestedValue_def foldl_absent del: get_prop.simps)
qed

lemma map_result_nth:
  "map_result f xs = Inr ys \<Longrightarrow> length ys = length xs \<and> (\<forall>i < length xs. f (xs ! i) = Inr (ys ! i))"
proof (induction xs arbitrary: ys)
  case Nil
  then show ?case by simp
next
  case (Cons x xs)
  then show ?case
    by (auto split: sum.splits simp: nth_Cons split: nat.splits)
qed

lemma flag_loop_members:
  "flag_loop rule acc ts = Inr res \<Longrightarrow> ft \<in> set res \<Longrightarrow>
     ft \<in> set acc \<or>
     (\<exists>cs. conditions rule = Some cs \<and>
        map_result (matched_condition_of (transaction_data ft)) cs = Inr (matched_conditions ft))"
proof (induction ts arbitrary: acc)
  case Nil
  then show ?case by simp
next
  case (Cons t ts)
  show ?case
  proof (cases "evaluateConditions t (conditions rule)")
    case False
    with Cons show ?thesis by simp
  next
    case True
    with Cons.prems(1) obtain cs ms where c: "conditions rule = Some cs"
      and m: "map_result (matched_condition_of t) cs = Inr ms"
      and l: "flag_loop rule (acc @ [\<lparr>ft_id = get_prop (JObj t) ''Id'', transaction_data = t,
                 matched_conditions = ms, ft_action = action rule, ft_reason = reason rule\<rparr>]) ts
              = Inr res"
      by (auto split: option.splits sum.splits)
    from Cons.IH [OF l Cons.prems(2)] c m show ?thesis by auto
  qed
qed

lemma matched_condition_of_line:
  assumes "matched_condition_of t c = Inr mc" and "isLineField (field c)"
  shows "isArray (get_prop (JObj t) ''Line'')
    \<and> m_field mc = field c
    \<and> actual_value mc = getNestedValue (JObj t) (field c)
    \<and> (\<forall>fd. flagged_field_data mc = Some fd \<longrightarrow> field_value fd = actual_value mc)"
  using assms
  by (cases "get_prop (JObj t) ''Line''")
     (auto simp: matched_condition_of_def Let_def split: option.splits)

text \<open>
  Claim C10, amended. In a successful result, for every flagged transaction and every
  condition on a field \<open>Line.p\<close> whose sub-path \<open>p\<close> begins with a segment that is neither
  an integer nor the name of a member of the array (its \<open>length\<close>, or a member that it
  inherits, such as \<open>constructor\<close> or \<open>map\<close>), the evidence entry of the condition has an
  absent actual value, and so has the field value of its flagged field data when there is
  one: the value is resolved along the whole path from the transaction, where the segment
  after \<open>Line\<close> is looked up as a key of the \<open>Line\<close> array, and not in the matching line.
\<close>

theorem line_evidence_actual_value:
  assumes "executeRule rule entity fetched = \<lparr>success = True, error = None, data = Some d\<rparr>"
    and "conditions rule = Some cs"
    and "ft \<in> set (flagged_transactions d)"
    and "i < length cs"
    and "field (cs ! i) = ''Line.'' @ subPath"
    and "\<not> is_index_key (hd (split_on (CHR ''.'') subPath))"
    and "hd (split_on (CHR ''.'') subPath) \<noteq> ''length''"
    and "\<not> inherited_by_array (hd (split_on (CHR ''.'') subPath))"
  shows "i < length (matched_conditions ft)
    \<and> m_field (matched_conditions ft ! i) = field (cs ! i)
    \<and> actual_value (matched_conditions ft ! i)
        = getNestedValue (JObj (transaction_data ft)) (field (cs ! i))
    \<and> actual_value (matched_conditions ft ! i) = JUndefined
    \<and> (\<forall>fd. flagged_field_data (matched_conditions ft ! i) = Some fd \<longrightarrow>
          field_value fd = JUndefined)"
proof -
  from assms(1) obtain ts where ts: "fetched = Records ts"
    by (cases fetched) (simp_all add: executeRule_def executeRule_try_def)
  have "\<exists>res. flag_loop rule [] ts = Inr res \<and> ft \<in> set res"
    using assms(1,3) ts
    by (auto simp: executeRule_def executeRule_try_def split: if_splits sum.splits)
  then obtain res where "flag_loop rule [] ts = Inr res" "ft \<in> set res" by blast
  from flag_loop_members [OF this] assms(2)
  have m: "map_result (matched_condition_of (transaction_data ft)) cs = Inr (matched_conditions ft)"
    by simp
  from map_result_nth [OF m] assms(4)
  have len: "length (matched_conditions ft) = length cs"
    and mi: "matched_condition_of (transaction_data ft) (cs ! i) = Inr (matched_conditions ft ! i)"
    by simp_all
  have lf: "isLineField (field (cs ! i))"
    using assms(5) by (simp add: isLineField_def startsWith_def)
  from matched_condition_of_line [OF mi lf]
  have arr: "isArray (get_prop (JObj (transaction_data ft)) ''Line'')"
    and fld: "m_field (matched_conditions ft ! i) = field (cs ! i)"
    and av: "actual_value (matched_conditions ft ! i)
              = getNestedValue (JObj (transaction_data ft)) (field (cs ! i))"
    and fv: "\<forall>fd. flagged_field_data (matched_conditions ft ! i) = Some fd \<longrightarrow>
              field_value fd = actual_value (matched_conditions ft ! i)"
    by simp_all
  from arr obtain lines where "get_prop (JObj (transaction_data ft)) ''Line'' = JArr lines"
    by (cases "get_prop (JObj (transaction_data ft)) ''Line''") simp_all
  from getNestedValue_line_array [OF this assms(6,7,8)] assms(5)
  have "getNestedValue (JObj (transaction_data ft)) (field (cs ! i)) = JUndefined"
    by simp
  with av fv fld len assms(4) show ?thesis by simp
qed

lemma line_rule_example:
  "executeRule rule_line ''Purchase'' (Records [line_tx]) =
     \<lparr>success = True, error = None, data = Some line_result\<rparr>"
  by code_simp

lemma amount_segment_example:
  "\<not> is_index_key (hd (split_on (CHR ''.'') ''Amount''))
   \<and> hd (split_on (CHR ''.'') ''Amount'') \<noteq> ''length''
   \<and> \<not> inherited_by_array (hd (split_on (CHR ''.'') ''Amount''))"
  by code_simp

theorem line_evidence_actual_value_witness:
  "executeRule rule_line ''Purchase'' (Records [line_tx]) =
     \<lparr>success = True, error = None, data = Some line_result\<rparr>
   \<and> conditions rule_line = Some [line_cond]
   \<and> line_ft \<in> set (flagged_transactions line_result)
   \<and> 0 < length [line_cond]
   \<and> field ([line_cond] ! 0) = ''Line.'' @ ''Amount''
   \<and> \<not> is_index_key (hd (split_on (CHR ''.'') ''Amount''))
   \<and> hd (split_on (CHR ''.'') ''Amount'') \<noteq> ''length''
   \<and> \<not> inherited_by_array (hd (split_on (CHR ''.'') ''Amount''))
   \<and> actual_value (matched_conditions line_ft ! 0) = JUndefined
   \<and> flagged_field_data (matched_conditions line_ft ! 0) =
       Some (LineFieldData 0 (JObj [(''Amount'', JNum 150 0)]) ''Line.Amount'' JUndefined)
   \<and> field_value (LineFieldData 0 (JObj [(''Amount'', JNum 150 0)]) ''Line.Amount'' JUndefined)
       = JUndefined"
proof -
  have c: "conditions rule_line = Some [line_cond]"
    by (simp add: rule_line_def)
  have m: "line_ft \<in> set (flagged_transactions line_result)"
    by (simp add: line_result_def)
  have i: "0 < length [line_cond]" by simp
  have f: "field ([line_cond] ! 0) = ''Line.'' @ ''Amount''"
    by (simp add: line_cond_def)
  from amount_segment_example
  have k: "\<not> is_index_key (hd (split_on (CHR ''.'') ''Amount''))"
    and l: "hd (split_on (CHR ''.'') ''Amount'') \<noteq> ''length''"
    and h: "\<not> inherited_by_array (hd (split_on (CHR ''.'') ''Amount''))"
    by blast+
  have d: "flagged_field_data (matched_conditions line_ft ! 0) =
       Some (LineFieldData 0 (JObj [(''Amount'', JNum 150 0)]) ''Line.Amount'' JUndefined)"
    by (simp add: line_ft_def line_mc_def)
  from line_evidence_actual_value [OF line_rule_example c m i f k l h] d
  have "actual_value (matched_conditions line_ft ! 0) = JUndefined"
    and "field_value (LineFieldData 0 (JObj [(''Amount'', JNum 150 0)]) ''Line.Amount'' JUndefined)
       = JUndefined"
    by blast+
  with line_rule_example c m i f k l h d show ?thesis
    by (intro conjI)
qed

end
